theory Spec2Isabelle
  imports Main "HOL-Library.Word"
begin

unbundle bit_operations_syntax

section \<open>Data model\<close>

text \<open>
  A ULID is the Go array \<open>[16]byte\<close>. It is modelled as a list of bytes; the array
  length is the side condition \<open>length uid = RawSize\<close> of the theorems below.
  Byte shifts are Go's \<open>uint8\<close> shifts: \<open>push_bit\<close> truncates to 8 bits and
  \<open>drop_bit\<close> is the logical shift right.
\<close>

type_synonym byte = "8 word"
type_synonym ULID = "byte list"

definition EncodedSize :: nat where
  "EncodedSize = 26"

definition RawSize :: nat where
  "RawSize = 16"

text \<open>\<open>MaxTime = math.MaxUint64 >> 16\<close>\<close>

definition MaxTime :: "64 word" where
  "MaxTime = drop_bit 16 (- 1)"

datatype error =
    ErrDataSize
  | ErrInvalidCharacters
  | ErrBufferSize
  | ErrBigTime
  | ErrOverflow
  | ErrMonotonicOverflow
  | ErrScanValue
  | EOF
  | ErrUnexpectedEOF

text \<open>The zero value \<open>ULID{}\<close>.\<close>

definition zero_ULID :: ULID where
  "zero_ULID = replicate RawSize 0"

section \<open>The Base32 tables\<close>

definition byte_of_char :: "char \<Rightarrow> byte" where
  "byte_of_char c = of_nat (of_char c)"

text \<open>Crockford's Base32 alphabet, \<open>var enc = [32]byte{...}\<close>.\<close>

definition enc :: "byte list" where
  "enc = map byte_of_char ''0123456789ABCDEFGHJKMNPQRSTVWXYZ''"

text \<open>The reverse table \<open>var dec = [256]byte{...}\<close>, row by row as in the source.\<close>

definition dec_table :: "byte list" where
  "dec_table =
   [0xFF, 0xFF, 0xFF, 0xFF, 0xFF, 0xFF, 0xFF, 0xFF,
    0xFF, 0xFF, 0xFF, 0xFF, 0xFF, 0xFF, 0xFF, 0xFF,
    0xFF, 0xFF, 0xFF, 0xFF, 0xFF, 0xFF, 0xFF, 0xFF,
    0xFF, 0xFF, 0xFF, 0xFF, 0xFF, 0xFF, 0xFF, 0xFF,

    0xFF, 0xFF, 0xFF, 0xFF, 0xFF, 0xFF, 0xFF, 0xFF,
    0xFF, 0xFF, 0xFF, 0xFF, 0xFF, 0xFF, 0xFF, 0xFF,
    0x00, 0x01, 0x02, 0x03, 0x04, 0x05, 0x06, 0x07,
    0x08, 0x09, 0xFF, 0xFF, 0xFF, 0xFF, 0xFF, 0xFF,

    0xFF, 0x0A, 0x0B, 0x0C, 0x0D, 0x0E, 0x0F, 0x10,
    0x11, 0xFF, 0x12, 0x13, 0xFF, 0x14, 0x15, 0xFF,
    0x16, 0x17, 0x18, 0x19, 0x1A, 0xFF, 0x1B, 0x1C,
    0x1D, 0x1E, 0x1F, 0xFF, 0xFF, 0xFF, 0xFF, 0xFF,

    0xFF, 0x0A, 0x0B, 0x0C, 0x0D, 0x0E, 0x0F, 0x10,
    0x11, 0xFF, 0x12, 0x13, 0xFF, 0x14, 0x15, 0xFF,
    0x16, 0x17, 0x18, 0x19, 0x1A, 0xFF, 0x1B, 0x1C,
    0x1D, 0x1E, 0x1F, 0xFF, 0xFF, 0xFF, 0xFF, 0xFF,

    0xFF, 0xFF, 0xFF, 0xFF, 0xFF, 0xFF, 0xFF, 0xFF,
    0xFF, 0xFF, 0xFF, 0xFF, 0xFF, 0xFF, 0xFF, 0xFF,
    0xFF, 0xFF, 0xFF, 0xFF, 0xFF, 0xFF, 0xFF, 0xFF,
    0xFF, 0xFF, 0xFF, 0xFF, 0xFF, 0xFF, 0xFF, 0xFF,

    0xFF, 0xFF, 0xFF, 0xFF, 0xFF, 0xFF, 0xFF, 0xFF,
    0xFF, 0xFF, 0xFF, 0xFF, 0xFF, 0xFF, 0xFF, 0xFF,
    0xFF, 0xFF, 0xFF, 0xFF, 0xFF, 0xFF, 0xFF, 0xFF,
    0xFF, 0xFF, 0xFF, 0xFF, 0xFF, 0xFF, 0xFF, 0xFF,

    0xFF, 0xFF, 0xFF, 0xFF, 0xFF, 0xFF, 0xFF, 0xFF,
    0xFF, 0xFF, 0xFF, 0xFF, 0xFF, 0xFF, 0xFF, 0xFF,
    0xFF, 0xFF, 0xFF, 0xFF, 0xFF, 0xFF, 0xFF, 0xFF,
    0xFF, 0xFF, 0xFF, 0xFF, 0xFF, 0xFF, 0xFF, 0xFF,

    0xFF, 0xFF, 0xFF, 0xFF, 0xFF, 0xFF, 0xFF, 0xFF,
    0xFF, 0xFF, 0xFF, 0xFF, 0xFF, 0xFF, 0xFF, 0xFF,
    0xFF, 0xFF, 0xFF, 0xFF, 0xFF, 0xFF, 0xFF, 0xFF,
    0xFF, 0xFF, 0xFF, 0xFF, 0xFF, 0xFF, 0xFF, 0xFF]"

text \<open>\<open>dec[c]\<close> for a byte \<open>c\<close>: the index is always below 256.\<close>

definition dec :: "byte \<Rightarrow> byte" where
  "dec c = dec_table ! unat c"

section \<open>Text decoding\<close>

text \<open>
  \<open>parse\<close> returns the pair \<open>(id, err)\<close> of the Go function. The early returns give the
  zero identifier; the strict failure returns the decoded identifier with the error.
\<close>

definition decode :: "byte list \<Rightarrow> ULID" where
  "decode v =
   [push_bit 5 (dec (v ! 0)) OR dec (v ! 1),
    push_bit 3 (dec (v ! 2)) OR drop_bit 2 (dec (v ! 3)),
    push_bit 6 (dec (v ! 3)) OR push_bit 1 (dec (v ! 4)) OR drop_bit 4 (dec (v ! 5)),
    push_bit 4 (dec (v ! 5)) OR drop_bit 1 (dec (v ! 6)),
    push_bit 7 (dec (v ! 6)) OR push_bit 2 (dec (v ! 7)) OR drop_bit 3 (dec (v ! 8)),
    push_bit 5 (dec (v ! 8)) OR dec (v ! 9),
    push_bit 3 (dec (v ! 10)) OR drop_bit 2 (dec (v ! 11)),
    push_bit 6 (dec (v ! 11)) OR push_bit 1 (dec (v ! 12)) OR drop_bit 4 (dec (v ! 13)),
    push_bit 4 (dec (v ! 13)) OR drop_bit 1 (dec (v ! 14)),
    push_bit 7 (dec (v ! 14)) OR push_bit 2 (dec (v ! 15)) OR drop_bit 3 (dec (v ! 16)),
    push_bit 5 (dec (v ! 16)) OR dec (v ! 17),
    push_bit 3 (dec (v ! 18)) OR drop_bit 2 (dec (v ! 19)),
    push_bit 6 (dec (v ! 19)) OR push_bit 1 (dec (v ! 20)) OR drop_bit 4 (dec (v ! 21)),
    push_bit 4 (dec (v ! 21)) OR drop_bit 1 (dec (v ! 22)),
    push_bit 7 (dec (v ! 22)) OR push_bit 2 (dec (v ! 23)) OR drop_bit 3 (dec (v ! 24)),
    push_bit 5 (dec (v ! 24)) OR dec (v ! 25)]"

definition parse :: "byte list \<Rightarrow> bool \<Rightarrow> ULID \<times> error option" where
  "parse v strict =
   (if length v \<noteq> EncodedSize then (zero_ULID, Some ErrDataSize)
    else if dec (v ! 0) = 0xFF \<or> dec (v ! 1) = 0xFF \<or> dec (v ! 2) = 0xFF \<or>
            dec (v ! 3) = 0xFF \<or> dec (v ! 4) = 0xFF \<or> dec (v ! 5) = 0xFF \<or>
            dec (v ! 6) = 0xFF \<or> dec (v ! 7) = 0xFF \<or> dec (v ! 8) = 0xFF \<or>
            dec (v ! 9) = 0xFF
      then (zero_ULID, Some ErrInvalidCharacters)
    else if v ! 0 > byte_of_char CHR ''7'' then (zero_ULID, Some ErrOverflow)
    else if strict \<and> list_ex (\<lambda>c. dec c = 0xFF) v
      then (decode v, Some ErrInvalidCharacters)
    else (decode v, None))"

definition Parse :: "byte list \<Rightarrow> ULID \<times> error option" where
  "Parse s = parse s False"

definition ParseStrict :: "byte list \<Rightarrow> ULID \<times> error option" where
  "ParseStrict s = parse s True"

section \<open>Binary and text encoding\<close>

text \<open>
  The marshalling functions write into a caller's buffer \<open>dst\<close>; the model returns the
  buffer after the call together with the error. Go's \<open>copy\<close> moves
  \<open>min (len dst) (len src)\<close> bytes and keeps the rest of \<open>dst\<close>.
\<close>

definition copy_bytes :: "byte list \<Rightarrow> byte list \<Rightarrow> byte list" where
  "copy_bytes dst src =
   (let n = min (length dst) (length src) in take n src @ drop n dst)"

definition MarshalBinaryTo :: "ULID \<Rightarrow> byte list \<Rightarrow> byte list \<times> error option" where
  "MarshalBinaryTo uid dst =
   (if length dst \<noteq> RawSize then (dst, Some ErrBufferSize)
    else (copy_bytes dst uid, None))"

definition MarshalBinary :: "ULID \<Rightarrow> byte list \<times> error option" where
  "MarshalBinary uid = MarshalBinaryTo uid (replicate RawSize 0)"

definition UnmarshalBinary :: "ULID \<Rightarrow> byte list \<Rightarrow> ULID \<times> error option" where
  "UnmarshalBinary uid data =
   (if length data \<noteq> RawSize then (uid, Some ErrDataSize)
    else (copy_bytes uid data, None))"

definition enc_at :: "byte \<Rightarrow> byte" where
  "enc_at i = enc ! unat i"

definition MarshalTextTo :: "ULID \<Rightarrow> byte list \<Rightarrow> byte list \<times> error option" where
  "MarshalTextTo uid dst =
   (if length dst \<noteq> EncodedSize then (dst, Some ErrBufferSize)
    else
     ([enc_at (drop_bit 5 (uid ! 0 AND 224)),
       enc_at (uid ! 0 AND 31),
       enc_at (drop_bit 3 (uid ! 1 AND 248)),
       enc_at (push_bit 2 (uid ! 1 AND 7) OR drop_bit 6 (uid ! 2 AND 192)),
       enc_at (drop_bit 1 (uid ! 2 AND 62)),
       enc_at (push_bit 4 (uid ! 2 AND 1) OR drop_bit 4 (uid ! 3 AND 240)),
       enc_at (push_bit 1 (uid ! 3 AND 15) OR drop_bit 7 (uid ! 4 AND 128)),
       enc_at (drop_bit 2 (uid ! 4 AND 124)),
       enc_at (push_bit 3 (uid ! 4 AND 3) OR drop_bit 5 (uid ! 5 AND 224)),
       enc_at (uid ! 5 AND 31),
       enc_at (drop_bit 3 (uid ! 6 AND 248)),
       enc_at (push_bit 2 (uid ! 6 AND 7) OR drop_bit 6 (uid ! 7 AND 192)),
       enc_at (drop_bit 1 (uid ! 7 AND 62)),
       enc_at (push_bit 4 (uid ! 7 AND 1) OR drop_bit 4 (uid ! 8 AND 240)),
       enc_at (push_bit 1 (uid ! 8 AND 15) OR drop_bit 7 (uid ! 9 AND 128)),
       enc_at (drop_bit 2 (uid ! 9 AND 124)),
       enc_at (push_bit 3 (uid ! 9 AND 3) OR drop_bit 5 (uid ! 10 AND 224)),
       enc_at (uid ! 10 AND 31),
       enc_at (drop_bit 3 (uid ! 11 AND 248)),
       enc_at (push_bit 2 (uid ! 11 AND 7) OR drop_bit 6 (uid ! 12 AND 192)),
       enc_at (drop_bit 1 (uid ! 12 AND 62)),
       enc_at (push_bit 4 (uid ! 12 AND 1) OR drop_bit 4 (uid ! 13 AND 240)),
       enc_at (push_bit 1 (uid ! 13 AND 15) OR drop_bit 7 (uid ! 14 AND 128)),
       enc_at (drop_bit 2 (uid ! 14 AND 124)),
       enc_at (push_bit 3 (uid ! 14 AND 3) OR drop_bit 5 (uid ! 15 AND 224)),
       enc_at (uid ! 15 AND 31)], None))"

definition MarshalText :: "ULID \<Rightarrow> byte list \<times> error option" where
  "MarshalText uid = MarshalTextTo uid (replicate EncodedSize 0)"

definition UnmarshalText :: "ULID \<Rightarrow> byte list \<Rightarrow> ULID \<times> error option" where
  "UnmarshalText uid v =
   (case parse v False of
      (ulid, Some err) \<Rightarrow> (uid, Some err)
    | (ulid, None) \<Rightarrow> (ulid, None))"

section \<open>Timestamp and entropy accessors\<close>

text \<open>\<open>binary.BigEndian.Uint64\<close> and \<open>binary.BigEndian.PutUint64\<close> on an 8-byte slice.\<close>

definition Uint64 :: "byte list \<Rightarrow> 64 word" where
  "Uint64 b =
     ucast (b ! 7) OR push_bit 8 (ucast (b ! 6)) OR push_bit 16 (ucast (b ! 5)) OR
     push_bit 24 (ucast (b ! 4)) OR push_bit 32 (ucast (b ! 3)) OR
     push_bit 40 (ucast (b ! 2)) OR push_bit 48 (ucast (b ! 1)) OR
     push_bit 56 (ucast (b ! 0))"

definition PutUint64 :: "64 word \<Rightarrow> byte list" where
  "PutUint64 v =
     [ucast (drop_bit 56 v), ucast (drop_bit 48 v), ucast (drop_bit 40 v),
      ucast (drop_bit 32 v), ucast (drop_bit 24 v), ucast (drop_bit 16 v),
      ucast (drop_bit 8 v), ucast v]"

text \<open>\<open>Time\<close>: \<open>binary.BigEndian.Uint64(id[:8]) >> 16\<close>.\<close>

definition Time :: "ULID \<Rightarrow> 64 word" where
  "Time uid = drop_bit 16 (Uint64 (take 8 uid))"

text \<open>
  \<open>SetTime\<close>: after the range check, \<open>binary.BigEndian.PutUint64(id[:8], ms<<16)\<close> writes
  the eight bytes of \<open>ms << 16\<close> over \<open>id[0..7]\<close>.
\<close>

definition SetTime :: "ULID \<Rightarrow> 64 word \<Rightarrow> ULID \<times> error option" where
  "SetTime uid ms =
   (if ms > MaxTime then (uid, Some ErrBigTime)
    else (PutUint64 (push_bit 16 ms) @ drop 8 uid, None))"

definition Entropy :: "ULID \<Rightarrow> byte list" where
  "Entropy uid = copy_bytes (replicate 10 0) (drop 6 uid)"

definition SetEntropy :: "ULID \<Rightarrow> byte list \<Rightarrow> ULID \<times> error option" where
  "SetEntropy uid e =
   (if length e \<noteq> 10 then (uid, Some ErrDataSize)
    else (take 6 uid @ copy_bytes (drop 6 uid) e, None))"

section \<open>Ordering\<close>

text \<open>The loop of \<open>Compare\<close>, started at index \<open>i\<close>.\<close>

function Compare_from :: "nat \<Rightarrow> ULID \<Rightarrow> ULID \<Rightarrow> int" where
  "Compare_from i uid other =
   (if i < RawSize then
      (if uid ! i < other ! i then - 1
       else if uid ! i > other ! i then 1
       else Compare_from (i + 1) uid other)
    else 0)"
  by pat_completeness auto
termination
  by (relation "measure (\<lambda>(i, uid, other). RawSize - i)") auto

definition Compare :: "ULID \<Rightarrow> ULID \<Rightarrow> int" where
  "Compare uid other = Compare_from 0 uid other"

definition Less :: "ULID \<Rightarrow> ULID \<Rightarrow> bool" where
  "Less uid other = (Compare uid other < 0)"

text \<open>
  Go compares strings byte by byte, a proper prefix being smaller; this is the three-way
  form of that built-in comparison, used for the encoded text.
\<close>

fun string_compare :: "byte list \<Rightarrow> byte list \<Rightarrow> int" where
  "string_compare [] [] = 0"
| "string_compare [] (y # ys) = - 1"
| "string_compare (x # xs) [] = 1"
| "string_compare (x # xs) (y # ys) =
     (if x < y then - 1 else if x > y then 1 else string_compare xs ys)"

text \<open>An identifier read as a big-endian unsigned integer.\<close>

definition be_value :: "byte list \<Rightarrow> nat" where
  "be_value bs = foldl (\<lambda>acc b. acc * 256 + unat b) 0 bs"

definition three_way :: "nat \<Rightarrow> nat \<Rightarrow> int" where
  "three_way m n = (if m < n then - 1 else if m > n then 1 else 0)"

text \<open>The text of an identifier: \<open>MarshalText\<close> without the error component.\<close>

definition text_of :: "ULID \<Rightarrow> byte list" where
  "text_of uid = fst (MarshalText uid)"

section \<open>JSON and SQL adapters\<close>

definition quote :: byte where
  "quote = byte_of_char CHR 0x22"

definition MarshalJSON :: "ULID \<Rightarrow> byte list \<times> error option" where
  "MarshalJSON uid =
     ([quote] @ fst (MarshalTextTo uid (replicate 26 0)) @ [quote], None)"

text \<open>The \<open>||\<close> of the guard is evaluated left to right, so the bytes are only read at length 28.\<close>

definition UnmarshalJSON :: "ULID \<Rightarrow> byte list \<Rightarrow> ULID \<times> error option" where
  "UnmarshalJSON uid data =
   (if length data \<noteq> 28 then (uid, Some ErrDataSize)
    else if data ! 0 \<noteq> quote then (uid, Some ErrDataSize)
    else if data ! 27 \<noteq> quote then (uid, Some ErrDataSize)
    else UnmarshalText uid (take 26 (drop 1 data)))"

text \<open>The dynamic type of the \<open>interface{}\<close> argument of \<open>Scan\<close>.\<close>

datatype scan_src = SrcNil | SrcString "byte list" | SrcBytes "byte list" | SrcOther

fun Scan :: "ULID \<Rightarrow> scan_src \<Rightarrow> ULID \<times> error option" where
  "Scan uid SrcNil = (uid, None)"
| "Scan uid (SrcString x) = UnmarshalText uid x"
| "Scan uid (SrcBytes x) = UnmarshalText uid x"
| "Scan uid SrcOther = (uid, Some ErrScanValue)"

section \<open>Entropy sources and construction\<close>

text \<open>
  An \<open>io.Reader\<close> of random bytes is modelled by the bytes it will still deliver.
  \<open>io.ReadFull\<close> for \<open>n\<close> bytes takes them from the front; a source that runs dry
  fails with \<open>EOF\<close> (nothing read) or \<open>ErrUnexpectedEOF\<close> (some read) and is left empty.
\<close>

type_synonym source = "byte list"

definition ReadFull :: "source \<Rightarrow> nat \<Rightarrow> source \<times> (error + byte list)" where
  "ReadFull src n =
   (if n \<le> length src then (drop n src, Inr (take n src))
    else if src = [] then ([], Inl EOF)
    else ([], Inl ErrUnexpectedEOF))"

text \<open>\<open>binary.Read(r, binary.BigEndian, &x)\<close> for a \<open>uint64\<close>.\<close>

definition binary_Read :: "source \<Rightarrow> source \<times> (error + 64 word)" where
  "binary_Read src =
   (case ReadFull src 8 of
      (src', Inl e) \<Rightarrow> (src', Inl e)
    | (src', Inr bs) \<Rightarrow> (src', Inr (Uint64 bs)))"

record monoReader =
  mr_Reader :: source
  mr_ms :: "64 word"
  mr_inc :: "64 word"
  mr_rand :: "64 word"

text \<open>\<open>MonotonicReader\<close>: \<open>Inl e\<close> is \<open>panic(err)\<close>.\<close>

definition MonotonicReader :: "64 word \<Rightarrow> source \<Rightarrow> error + monoReader" where
  "MonotonicReader ms entropy =
   (case binary_Read entropy of
      (src', Inl e) \<Rightarrow> Inl e
    | (src', Inr r) \<Rightarrow>
        Inr \<lparr>mr_Reader = src', mr_ms = ms, mr_inc = r, mr_rand = r\<rparr>)"

text \<open>
  The tail of \<open>monoReader.Read\<close>: \<open>PutUint64(p[:8], m.inc)\<close>, then
  \<open>copy(p[:], p[2:10])\<close>, which moves the old \<open>p[2..9]\<close> to \<open>p[0..7]\<close>.
\<close>

definition emit :: "64 word \<Rightarrow> byte list \<Rightarrow> byte list" where
  "emit c p =
   (let p1 = PutUint64 c @ drop 8 p
    in copy_bytes p1 (take 8 (drop 2 p1)))"

text \<open>
  \<open>monoReader.Read\<close> returns the reader after the call, the buffer after the call, the
  count \<open>n\<close> and the error.
\<close>

definition Read :: "monoReader \<Rightarrow> byte list \<Rightarrow> monoReader \<times> byte list \<times> nat \<times> error option" where
  "Read m p =
   (if length p \<noteq> 10 then (m, p, 0, Some ErrDataSize)
    else if mr_ms m = 0 then
      (case binary_Read (mr_Reader m) of
         (src', Inl e) \<Rightarrow> (m\<lparr>mr_Reader := src'\<rparr>, p, 0, Some e)
       | (src', Inr r) \<Rightarrow>
           (m\<lparr>mr_Reader := src', mr_rand := r, mr_inc := r\<rparr>, emit r p, 10, None))
    else
      (let m' = m\<lparr>mr_inc := mr_inc m + 1\<rparr>
       in if mr_inc m' < mr_rand m' then (m', p, 0, Some ErrMonotonicOverflow)
          else (m', emit (mr_inc m') p, 10, None)))"

text \<open>The \<open>entropy io.Reader\<close> argument of \<open>New\<close>: a plain byte source or a monotonic reader.\<close>

datatype entropy = Source source | Mono monoReader

definition time_bytes :: "64 word \<Rightarrow> byte list" where
  "time_bytes ms =
     [ucast (drop_bit 40 ms), ucast (drop_bit 32 ms), ucast (drop_bit 24 ms),
      ucast (drop_bit 16 ms), ucast (drop_bit 8 ms), ucast ms]"

text \<open>
  \<open>New\<close> writes the timestamp into \<open>id[0..5]\<close> and fills \<open>id[6:]\<close>, ten zero bytes at
  that point, from the entropy reader. It returns the reader after the call as well.
\<close>

definition New :: "64 word \<Rightarrow> entropy \<Rightarrow> entropy \<times> ULID \<times> error option" where
  "New ms ent =
   (if ms > MaxTime then (ent, zero_ULID, Some ErrBigTime)
    else
      (case ent of
         Source src \<Rightarrow>
           (case ReadFull src 10 of
              (src', Inl e) \<Rightarrow> (Source src', zero_ULID, Some e)
            | (src', Inr bs) \<Rightarrow> (Source src', time_bytes ms @ bs, None))
       | Mono m \<Rightarrow>
           (case Read m (replicate 10 0) of
              (m', p, n, Some e) \<Rightarrow> (Mono m', zero_ULID, Some e)
            | (m', p, n, None) \<Rightarrow> (Mono m', time_bytes ms @ p, None))))"

text \<open>The identifier packed from a timestamp and ten entropy bytes.\<close>

definition pack :: "64 word \<Rightarrow> byte list \<Rightarrow> ULID" where
  "pack t e = fst (snd (New t (Source e)))"

section \<open>Auxiliary definitions for the proofs\<close>

text \<open>A linear check of a table: \<open>Q k x\<close> for every entry \<open>x\<close> at index \<open>k\<close>.\<close>

fun check_from :: "(nat \<Rightarrow> 'a \<Rightarrow> bool) \<Rightarrow> nat \<Rightarrow> 'a list \<Rightarrow> bool" where
  "check_from Q k [] = True"
| "check_from Q k (x # xs) = (Q k x \<and> check_from Q (k + 1) xs)"

text \<open>
  A character is valid when the reverse table does not hold the sentinel for it
  (\<open>0xFF represents an invalid character\<close>).
\<close>

definition valid_char :: "byte \<Rightarrow> bool" where
  "valid_char c = (dec c \<noteq> 0xFF)"

text \<open>The sixteen decode equations of \<open>parse\<close>, on the list of the 26 decoded values.\<close>

definition decode_values :: "byte list \<Rightarrow> ULID" where
  "decode_values d =
   [push_bit 5 (d ! 0) OR d ! 1,
    push_bit 3 (d ! 2) OR drop_bit 2 (d ! 3),
    push_bit 6 (d ! 3) OR push_bit 1 (d ! 4) OR drop_bit 4 (d ! 5),
    push_bit 4 (d ! 5) OR drop_bit 1 (d ! 6),
    push_bit 7 (d ! 6) OR push_bit 2 (d ! 7) OR drop_bit 3 (d ! 8),
    push_bit 5 (d ! 8) OR d ! 9,
    push_bit 3 (d ! 10) OR drop_bit 2 (d ! 11),
    push_bit 6 (d ! 11) OR push_bit 1 (d ! 12) OR drop_bit 4 (d ! 13),
    push_bit 4 (d ! 13) OR drop_bit 1 (d ! 14),
    push_bit 7 (d ! 14) OR push_bit 2 (d ! 15) OR drop_bit 3 (d ! 16),
    push_bit 5 (d ! 16) OR d ! 17,
    push_bit 3 (d ! 18) OR drop_bit 2 (d ! 19),
    push_bit 6 (d ! 19) OR push_bit 1 (d ! 20) OR drop_bit 4 (d ! 21),
    push_bit 4 (d ! 21) OR drop_bit 1 (d ! 22),
    push_bit 7 (d ! 22) OR push_bit 2 (d ! 23) OR drop_bit 3 (d ! 24),
    push_bit 5 (d ! 24) OR d ! 25]"



definition m3 :: monoReader where
  "m3 = \<lparr>mr_Reader = [], mr_ms = 1, mr_inc = 0xFFFFFFFFFFFE, mr_rand = 0xFFFFFFFFFFFE\<rparr>"

definition mmax :: monoReader where
  "mmax = \<lparr>mr_Reader = [], mr_ms = 1, mr_inc = 0xFFFFFFFFFFFFFFFF, mr_rand = 5\<rparr>"

definition u4 :: ULID where
  "u4 = [0xFF, 0xFF, 0xFF, 0xFF, 0xFF, 0xFF, 0xFF, 0xFF,
         0xFF, 0xFF, 0xFF, 0xFF, 0xFF, 0xFF, 0xFF, 0xFF]"

definition v_bad_entropy :: "byte list" where
  "v_bad_entropy = map byte_of_char ''0000000000!!!!!!!!!!!!!!!!''"

definition v_bad_time :: "byte list" where
  "v_bad_time = map byte_of_char ''00000!00000000000000000000''"

definition v_overflow :: "byte list" where
  "v_overflow = map byte_of_char ''80000000000000000000000000''"

section \<open>Facts about the tables\<close>

lemma check_from_nth: "check_from Q k xs \<Longrightarrow> i < length xs \<Longrightarrow> Q (k + i) (xs ! i)"
proof (induction xs arbitrary: k i)
  case Nil
  then show ?case by simp
next
  case (Cons x xs)
  show ?case
  proof (cases i)
    case 0
    with Cons.prems show ?thesis by simp
  next
    case (Suc j)
    with Cons.prems have "Q (k + 1 + j) (xs ! j)" by (intro Cons.IH) simp_all
    with Suc show ?thesis by simp
  qed
qed

lemma length_dec_table: "length dec_table = 256"
  by (simp add: dec_table_def)

lemma dec_check:
  assumes "check_from Q 0 dec_table"
  shows "Q (unat c) (dec c)"
proof -
  have "unat c < length dec_table"
    using unsigned_less [of c] by (simp add: length_dec_table)
  with assms have "Q (0 + unat c) (dec_table ! unat c)" by (rule check_from_nth)
  then show ?thesis by (simp add: dec_def)
qed

lemma dec_table_range:
  "check_from (\<lambda>i d. d \<noteq> 0xFF \<longrightarrow> d < 32 \<and> ((55 < i) = (7 < d))) 0 dec_table"
  by (simp add: dec_table_def)

lemma seven_eq: "byte_of_char CHR ''7'' = 55"
  by (simp add: byte_of_char_def)

lemma dec_valid_range:
  assumes "dec c \<noteq> 0xFF"
  shows "dec c < 32" and "byte_of_char CHR ''7'' < c \<longleftrightarrow> 7 < dec c"
proof -
  from dec_check [OF dec_table_range, of c] assms
  have r: "dec c < 32 \<and> ((55 < unat c) = (7 < dec c))" by simp
  then show "dec c < 32" by simp
  have "byte_of_char CHR ''7'' < c \<longleftrightarrow> 55 < unat c"
    by (simp add: seven_eq word_less_nat_alt)
  with r show "byte_of_char CHR ''7'' < c \<longleftrightarrow> 7 < dec c" by simp
qed

lemma ex_lt10:
  "(\<exists>i<10. P (i::nat)) \<longleftrightarrow> P 0 \<or> P 1 \<or> P 2 \<or> P 3 \<or> P 4 \<or> P 5 \<or> P 6 \<or> P 7 \<or> P 8 \<or> P 9"
proof -
  have "\<And>i::nat. i < 10 \<longleftrightarrow> i = 0 \<or> i = 1 \<or> i = 2 \<or> i = 3 \<or> i = 4 \<or> i = 5 \<or> i = 6 \<or>
      i = 7 \<or> i = 8 \<or> i = 9" by arith
  then show ?thesis by auto
qed

lemma parse_error_iff:
  "snd (parse v strict) \<noteq> None \<longleftrightarrow>
     length v \<noteq> 26 \<or> (\<exists>i<10. dec (v ! i) = 0xFF) \<or> 7 < dec (v ! 0) \<or>
     (strict \<and> list_ex (\<lambda>c. dec c = 0xFF) v)"
proof (cases "length v \<noteq> 26 \<or> (\<exists>i<10. dec (v ! i) = 0xFF)")
  case True
  then show ?thesis unfolding ex_lt10 by (auto simp add: parse_def EncodedSize_def)
next
  case False
  then have len: "length v = 26" and valid: "\<not> (\<exists>i<10. dec (v ! i) = 0xFF)" by simp_all
  from valid have v0: "dec (v ! 0) \<noteq> 0xFF" by auto
  from valid have nv: "\<not> (dec (v ! 0) = 0xFF \<or> dec (v ! 1) = 0xFF \<or> dec (v ! 2) = 0xFF \<or>
            dec (v ! 3) = 0xFF \<or> dec (v ! 4) = 0xFF \<or> dec (v ! 5) = 0xFF \<or>
            dec (v ! 6) = 0xFF \<or> dec (v ! 7) = 0xFF \<or> dec (v ! 8) = 0xFF \<or>
            dec (v ! 9) = 0xFF)" unfolding ex_lt10 .
  show ?thesis
    using len valid dec_valid_range(2) [OF v0]
    by (simp add: parse_def EncodedSize_def nv)
qed


section \<open>Size checks, failed decodes and the timestamp range\<close>

lemma MaxTime_eq: "MaxTime = 0xFFFFFFFFFFFF"
  unfolding MaxTime_def by code_simp

lemma MaxTime_less_iff: "MaxTime < ms \<longleftrightarrow> 2 ^ 48 \<le> unat ms"
proof -
  have "MaxTime < ms \<longleftrightarrow> unat MaxTime < unat ms" by (rule word_less_nat_alt)
  also have "\<dots> \<longleftrightarrow> 2 ^ 48 \<le> unat ms" unfolding MaxTime_eq by auto
  finally show ?thesis .
qed

lemma UnmarshalText_eq:
  "UnmarshalText uid v =
     (if snd (parse v False) = None then (fst (parse v False), None)
      else (uid, snd (parse v False)))"
  by (cases "parse v False") (auto simp add: UnmarshalText_def split: option.splits)

lemma UnmarshalText_error_keeps:
  "snd (UnmarshalText uid v) \<noteq> None \<Longrightarrow> fst (UnmarshalText uid v) = uid"
  by (cases "parse v False") (auto simp add: UnmarshalText_def split: option.splits)

lemma UnmarshalText_error_iff:
  "snd (UnmarshalText uid v) \<noteq> None \<longleftrightarrow>
     length v \<noteq> 26 \<or> (\<exists>i<10. dec (v ! i) = 0xFF) \<or> 7 < dec (v ! 0)"
proof -
  have "snd (UnmarshalText uid v) = snd (parse v False)"
    by (cases "parse v False") (auto simp add: UnmarshalText_def split: option.splits)
  then show ?thesis using parse_error_iff [of v False] by simp
qed

lemma UnmarshalJSON_error_keeps:
  "snd (UnmarshalJSON uid js) \<noteq> None \<Longrightarrow> fst (UnmarshalJSON uid js) = uid"
  by (simp add: UnmarshalJSON_def UnmarshalText_error_keeps split: if_splits)

lemma Scan_error_keeps:
  "snd (Scan uid src) \<noteq> None \<Longrightarrow> fst (Scan uid src) = uid"
  by (cases src) (simp_all add: UnmarshalText_error_keeps)




text \<open>
  Claim C7. \<open>SetTime\<close> called with \<open>2^48\<close>, one past the largest 48-bit timestamp, or with
  any larger 64-bit value, fails with \<open>ErrBigTime\<close> and returns the identifier with all of
  its bytes unchanged.
\<close>

theorem SetTime_too_large:
  "2 ^ 48 \<le> unat ms \<Longrightarrow> SetTime uid ms = (uid, Some ErrBigTime)"
  by (simp add: SetTime_def MaxTime_less_iff)

theorem SetTime_too_large_witness:
  "2 ^ 48 \<le> unat (2 ^ 48 :: 64 word) \<and>
   SetTime [1, 2, 3, 4, 5, 6, 7, 8, 9, 10, 11, 12, 13, 14, 15, 16] (2 ^ 48) =
     ([1, 2, 3, 4, 5, 6, 7, 8, 9, 10, 11, 12, 13, 14, 15, 16], Some ErrBigTime)"
proof -
  have h: "2 ^ 48 \<le> unat (2 ^ 48 :: 64 word)" by simp
  show ?thesis using h SetTime_too_large [OF h] by simp
qed

text \<open>
  Claim C8. Every decoder rejects input of the wrong size with \<open>ErrDataSize\<close>, whatever the
  bytes are: the text decoders (\<open>Parse\<close>, \<open>ParseStrict\<close>, \<open>UnmarshalText\<close>) when the length
  is not 26, \<open>UnmarshalBinary\<close> when the length is not 16, and \<open>UnmarshalJSON\<close> when the
  length is not 28 or when byte 0 or byte 27 is not a double quote.
\<close>

theorem wrong_size_rejected:
  "(length v \<noteq> 26 \<longrightarrow>
      Parse v = (zero_ULID, Some ErrDataSize) \<and>
      ParseStrict v = (zero_ULID, Some ErrDataSize) \<and>
      UnmarshalText uid v = (uid, Some ErrDataSize)) \<and>
   (length data \<noteq> 16 \<longrightarrow> UnmarshalBinary uid data = (uid, Some ErrDataSize)) \<and>
   (length js \<noteq> 28 \<longrightarrow> UnmarshalJSON uid js = (uid, Some ErrDataSize)) \<and>
   (length js = 28 \<and> (js ! 0 \<noteq> quote \<or> js ! 27 \<noteq> quote) \<longrightarrow>
      UnmarshalJSON uid js = (uid, Some ErrDataSize))"
  by (simp add: Parse_def ParseStrict_def parse_def UnmarshalText_def UnmarshalBinary_def
      UnmarshalJSON_def EncodedSize_def RawSize_def)

theorem wrong_size_rejected_witness:
  "Parse [0x30] = (zero_ULID, Some ErrDataSize) \<and>
   ParseStrict [0x30] = (zero_ULID, Some ErrDataSize) \<and>
   UnmarshalText [7] [0x30] = ([7], Some ErrDataSize) \<and>
   UnmarshalBinary [7] [1, 2, 3] = ([7], Some ErrDataSize) \<and>
   UnmarshalJSON [7] [0x22, 0x22] = ([7], Some ErrDataSize) \<and>
   UnmarshalJSON [7] (replicate 28 0x30) = ([7], Some ErrDataSize)"
  using wrong_size_rejected [of "[0x30]" "[7]" "[1, 2, 3]" "[0x22, 0x22]"]
    wrong_size_rejected [of "[0x30]" "[7]" "[1, 2, 3]" "replicate 28 0x30"]
  by (simp add: quote_def byte_of_char_def)

text \<open>
  Claim C9. \<open>UnmarshalText\<close> fails exactly on a wrong length, on an invalid character among
  the first ten positions, or on a first character whose value exceeds 7; whenever it fails the
  receiver is returned unchanged. The same holds for a failing \<open>UnmarshalJSON\<close> and a failing
  \<open>Scan\<close>, and \<open>Scan\<close> of a nil value changes nothing and returns no error.
\<close>

theorem failed_decode_keeps_receiver:
  "(snd (UnmarshalText uid v) \<noteq> None \<longleftrightarrow>
      length v \<noteq> 26 \<or> (\<exists>i<10. dec (v ! i) = 0xFF) \<or> 7 < dec (v ! 0)) \<and>
   (snd (UnmarshalText uid v) \<noteq> None \<longrightarrow> fst (UnmarshalText uid v) = uid) \<and>
   (snd (UnmarshalJSON uid js) \<noteq> None \<longrightarrow> fst (UnmarshalJSON uid js) = uid) \<and>
   (snd (Scan uid src) \<noteq> None \<longrightarrow> fst (Scan uid src) = uid) \<and>
   Scan uid SrcNil = (uid, None)"
  using UnmarshalText_error_iff [of uid v] UnmarshalText_error_keeps [of uid v]
    UnmarshalJSON_error_keeps [of uid js] Scan_error_keeps [of uid src]
  by simp

theorem failed_decode_keeps_receiver_witness:
  "snd (UnmarshalText [7] [0x30]) \<noteq> None \<and> fst (UnmarshalText [7] [0x30]) = [7] \<and>
   snd (UnmarshalJSON [7] [0x22]) \<noteq> None \<and> fst (UnmarshalJSON [7] [0x22]) = [7] \<and>
   snd (Scan [7] (SrcString [0x30])) \<noteq> None \<and> fst (Scan [7] (SrcString [0x30])) = [7]"
  using failed_decode_keeps_receiver [of "[7]" "[0x30]" "[0x22]" "SrcString [0x30]"]
  by (simp add: UnmarshalJSON_def UnmarshalText_def parse_def EncodedSize_def)

section \<open>The monotonic reader\<close>






text \<open>
  Claim C3 fails on the code. A reader seeded with \<open>0x0000FFFFFFFFFFFE\<close> for timestamp 1
  serves two successful reads whose entropy goes from \<open>FF FF FF FF FF FF 00 00 00 00\<close> down
  to all zero, since only the low six bytes of the counter are emitted: the second identifier
  is smaller than the first. And a read that overflows the counter fails with
  \<open>ErrMonotonicOverflow\<close> after the counter has been advanced, here from the maximum to 0.
\<close>

theorem monotonic_entropy_wraps:
  "MonotonicReader 1 [0, 0, 0xFF, 0xFF, 0xFF, 0xFF, 0xFF, 0xFE] = Inr m3 \<and>
   New 1 (Mono m3) =
     (Mono (m3\<lparr>mr_inc := 0xFFFFFFFFFFFF\<rparr>),
      [0, 0, 0, 0, 0, 1, 0xFF, 0xFF, 0xFF, 0xFF, 0xFF, 0xFF, 0, 0, 0, 0], None) \<and>
   New 1 (Mono (m3\<lparr>mr_inc := 0xFFFFFFFFFFFF\<rparr>)) =
     (Mono (m3\<lparr>mr_inc := 0x1000000000000\<rparr>),
      [0, 0, 0, 0, 0, 1, 0, 0, 0, 0, 0, 0, 0, 0, 0, 0], None) \<and>
   Compare [0, 0, 0, 0, 0, 1, 0xFF, 0xFF, 0xFF, 0xFF, 0xFF, 0xFF, 0, 0, 0, 0]
           [0, 0, 0, 0, 0, 1, 0, 0, 0, 0, 0, 0, 0, 0, 0, 0] = 1 \<and>
   Read mmax [0, 0, 0, 0, 0, 0, 0, 0, 0, 0] =
     (mmax\<lparr>mr_inc := 0\<rparr>, [0, 0, 0, 0, 0, 0, 0, 0, 0, 0], 0, Some ErrMonotonicOverflow)"
proof -
  have a: "MonotonicReader 1 [0, 0, 0xFF, 0xFF, 0xFF, 0xFF, 0xFF, 0xFE] = Inr m3"
    by (simp add: MonotonicReader_def binary_Read_def ReadFull_def Uint64_def m3_def)
  have r1: "Read m3 [0, 0, 0, 0, 0, 0, 0, 0, 0, 0] =
      (m3\<lparr>mr_inc := 0xFFFFFFFFFFFF\<rparr>, [0xFF, 0xFF, 0xFF, 0xFF, 0xFF, 0xFF, 0, 0, 0, 0], 10, None)"
    by (simp add: Read_def m3_def emit_def PutUint64_def copy_bytes_def Let_def)
  have r2: "Read (m3\<lparr>mr_inc := 0xFFFFFFFFFFFF\<rparr>) [0, 0, 0, 0, 0, 0, 0, 0, 0, 0] =
      (m3\<lparr>mr_inc := 0x1000000000000\<rparr>, [0, 0, 0, 0, 0, 0, 0, 0, 0, 0], 10, None)"
    by (simp add: Read_def m3_def emit_def PutUint64_def copy_bytes_def Let_def)
  have z: "replicate 10 (0::byte) = [0, 0, 0, 0, 0, 0, 0, 0, 0, 0]"
    by (simp add: numeral_eq_Suc)
  have t: "time_bytes 1 = [0, 0, 0, 0, 0, 1]"
    by (simp add: time_bytes_def)
  have m: "MaxTime \<noteq> 0"
    by (simp add: MaxTime_eq)
  have b: "New 1 (Mono m3) =
     (Mono (m3\<lparr>mr_inc := 0xFFFFFFFFFFFF\<rparr>),
      [0, 0, 0, 0, 0, 1, 0xFF, 0xFF, 0xFF, 0xFF, 0xFF, 0xFF, 0, 0, 0, 0], None)"
    by (simp add: New_def m z r1 t)
  have c: "New 1 (Mono (m3\<lparr>mr_inc := 0xFFFFFFFFFFFF\<rparr>)) =
     (Mono (m3\<lparr>mr_inc := 0x1000000000000\<rparr>),
      [0, 0, 0, 0, 0, 1, 0, 0, 0, 0, 0, 0, 0, 0, 0, 0], None)"
    by (simp add: New_def m z r2 t)
  have d: "Compare [0, 0, 0, 0, 0, 1, 0xFF, 0xFF, 0xFF, 0xFF, 0xFF, 0xFF, 0, 0, 0, 0]
           [0, 0, 0, 0, 0, 1, 0, 0, 0, 0, 0, 0, 0, 0, 0, 0 :: byte] = 1"
    by code_simp
  have e: "Read mmax [0, 0, 0, 0, 0, 0, 0, 0, 0, 0] =
     (mmax\<lparr>mr_inc := 0\<rparr>, [0, 0, 0, 0, 0, 0, 0, 0, 0, 0], 0, Some ErrMonotonicOverflow)"
    by (simp add: Read_def mmax_def Let_def)
  from a b c d e show ?thesis by (intro conjI)
qed

section \<open>Setting the timestamp\<close>

text \<open>
  Claim C4 fails on the code. \<open>SetTime\<close> writes eight bytes, so the first two entropy bytes
  (bytes 6 and 7 of the identifier) are overwritten with zero.
\<close>

theorem SetTime_clobbers_entropy:
  "SetTime u4 0 =
     ([0, 0, 0, 0, 0, 0, 0, 0, 0xFF, 0xFF, 0xFF, 0xFF, 0xFF, 0xFF, 0xFF, 0xFF], None) \<and>
   Entropy (fst (SetTime u4 0)) = [0, 0, 0xFF, 0xFF, 0xFF, 0xFF, 0xFF, 0xFF, 0xFF, 0xFF] \<and>
   Entropy u4 = [0xFF, 0xFF, 0xFF, 0xFF, 0xFF, 0xFF, 0xFF, 0xFF, 0xFF, 0xFF]"
proof -
  have m: "\<not> MaxTime < 0" by simp
  have a: "SetTime u4 0 =
     ([0, 0, 0, 0, 0, 0, 0, 0, 0xFF, 0xFF, 0xFF, 0xFF, 0xFF, 0xFF, 0xFF, 0xFF], None)"
    by (simp add: SetTime_def m PutUint64_def u4_def)
  have b: "Entropy u4 = [0xFF, 0xFF, 0xFF, 0xFF, 0xFF, 0xFF, 0xFF, 0xFF, 0xFF, 0xFF]"
    by (simp add: Entropy_def u4_def copy_bytes_def)
  have c: "Entropy [0, 0, 0, 0, 0, 0, 0, 0, 0xFF, 0xFF, 0xFF, 0xFF, 0xFF, 0xFF, 0xFF, 0xFF] =
     [0, 0, 0xFF, 0xFF, 0xFF, 0xFF, 0xFF, 0xFF, 0xFF, 0xFF]"
    by (simp add: Entropy_def copy_bytes_def)
  from a b c show ?thesis by simp
qed


section \<open>Strict and permissive decoding\<close>

lemma all_lt10:
  "(\<forall>i<10. P (i::nat)) \<longleftrightarrow> P 0 \<and> P 1 \<and> P 2 \<and> P 3 \<and> P 4 \<and> P 5 \<and> P 6 \<and> P 7 \<and> P 8 \<and> P 9"
  using ex_lt10 [of "\<lambda>i. \<not> P i"] by blast

lemma decode_eq_values: "length v = 26 \<Longrightarrow> decode v = decode_values (map dec v)"
  by (simp add: decode_def decode_values_def)

lemma parse_cases:
  assumes "length v = 26"
  shows "parse v strict =
    (if \<exists>i<10. \<not> valid_char (v ! i) then (zero_ULID, Some ErrInvalidCharacters)
     else if 7 < dec (v ! 0) then (zero_ULID, Some ErrOverflow)
     else if strict \<and> (\<exists>i<26. \<not> valid_char (v ! i))
       then (decode_values (map dec v), Some ErrInvalidCharacters)
     else (decode_values (map dec v), None))"
proof (cases "\<exists>i<10. \<not> valid_char (v ! i)")
  case True
  then show ?thesis
    using assms unfolding ex_lt10 valid_char_def by (simp add: parse_def EncodedSize_def)
next
  case False
  then have v0: "dec (v ! 0) \<noteq> 0xFF" by (auto simp add: valid_char_def)
  have ex: "list_ex (\<lambda>c. dec c = 0xFF) v \<longleftrightarrow> (\<exists>i<26. \<not> valid_char (v ! i))"
  proof -
    have "(\<exists>c\<in>set v. dec c = 0xFF) \<longleftrightarrow> (\<exists>i<length v. dec (v ! i) = 0xFF)"
      by (metis in_set_conv_nth)
    then show ?thesis using assms by (simp add: list_ex_iff valid_char_def)
  qed
  from False have "\<forall>i<10. valid_char (v ! i)" by simp
  then have nv: "dec (v ! 0) \<noteq> 0xFF \<and> dec (v ! 1) \<noteq> 0xFF \<and> dec (v ! 2) \<noteq> 0xFF \<and>
      dec (v ! 3) \<noteq> 0xFF \<and> dec (v ! 4) \<noteq> 0xFF \<and> dec (v ! 5) \<noteq> 0xFF \<and>
      dec (v ! 6) \<noteq> 0xFF \<and> dec (v ! 7) \<noteq> 0xFF \<and> dec (v ! 8) \<noteq> 0xFF \<and>
      dec (v ! 9) \<noteq> 0xFF"
    unfolding all_lt10 valid_char_def .
  show ?thesis
    using False assms dec_valid_range(2) [OF v0] nv
    by (auto simp add: parse_def EncodedSize_def ex decode_eq_values)
qed

text \<open>
  Claim C5. For every input of 26 bytes: when the first ten characters are valid, the first
  one has a value of at most 7 and some character among the last sixteen is invalid, strict
  decoding fails with \<open>ErrInvalidCharacters\<close> and permissive decoding succeeds. Both modes
  give the same result, \<open>ErrInvalidCharacters\<close>, on an invalid character among the first ten
  positions, and the same result, \<open>ErrOverflow\<close>, when the first ten characters are valid and the
  value of the first exceeds 7.
\<close>

theorem strict_vs_permissive:
  assumes "length v = 26"
  shows
   "((\<forall>i<10. valid_char (v ! i)) \<and> dec (v ! 0) \<le> 7 \<and>
     (\<exists>i. 10 \<le> i \<and> i < 26 \<and> \<not> valid_char (v ! i)) \<longrightarrow>
       snd (ParseStrict v) = Some ErrInvalidCharacters \<and> snd (Parse v) = None) \<and>
    ((\<exists>i<10. \<not> valid_char (v ! i)) \<longrightarrow>
       ParseStrict v = (zero_ULID, Some ErrInvalidCharacters) \<and>
       Parse v = (zero_ULID, Some ErrInvalidCharacters)) \<and>
    ((\<forall>i<10. valid_char (v ! i)) \<and> 7 < dec (v ! 0) \<longrightarrow>
       ParseStrict v = (zero_ULID, Some ErrOverflow) \<and>
       Parse v = (zero_ULID, Some ErrOverflow))"
  unfolding Parse_def ParseStrict_def parse_cases [OF assms]
  by (auto simp add: not_less)

lemma dec_digit_0: "dec (byte_of_char CHR ''0'') = 0"
  by (simp add: dec_def dec_table_def byte_of_char_def)

lemma dec_digit_8: "dec (byte_of_char CHR ''8'') = 8"
  by (simp add: dec_def dec_table_def byte_of_char_def)

lemma dec_bang: "dec (byte_of_char CHR ''!'') = 0xFF"
  by (simp add: dec_def dec_table_def byte_of_char_def)

theorem strict_vs_permissive_witness:
  "snd (ParseStrict v_bad_entropy) = Some ErrInvalidCharacters \<and>
   snd (Parse v_bad_entropy) = None \<and>
   ParseStrict v_bad_time = (zero_ULID, Some ErrInvalidCharacters) \<and>
   Parse v_bad_time = (zero_ULID, Some ErrInvalidCharacters) \<and>
   ParseStrict v_overflow = (zero_ULID, Some ErrOverflow) \<and>
   Parse v_overflow = (zero_ULID, Some ErrOverflow)"
proof -
  have l1: "length v_bad_entropy = 26" and l2: "length v_bad_time = 26"
    and l3: "length v_overflow = 26"
    by (simp_all add: v_bad_entropy_def v_bad_time_def v_overflow_def)
  have a1: "\<forall>i<10. valid_char (v_bad_entropy ! i)"
    unfolding all_lt10 by (simp add: v_bad_entropy_def valid_char_def dec_digit_0)
  have a2: "dec (v_bad_entropy ! 0) \<le> 7"
    by (simp add: v_bad_entropy_def dec_digit_0)
  have a3: "10 \<le> (10::nat) \<and> (10::nat) < 26 \<and> \<not> valid_char (v_bad_entropy ! 10)"
    by (simp add: v_bad_entropy_def valid_char_def dec_bang)
  have b1: "(5::nat) < 10 \<and> \<not> valid_char (v_bad_time ! 5)"
    by (simp add: v_bad_time_def valid_char_def dec_bang)
  have c1: "\<forall>i<10. valid_char (v_overflow ! i)"
    unfolding all_lt10 by (simp add: v_overflow_def valid_char_def dec_digit_0 dec_digit_8)
  have c2: "7 < dec (v_overflow ! 0)"
    by (simp add: v_overflow_def dec_digit_8)
  from a1 a2 a3 b1 c1 c2 strict_vs_permissive [OF l1] strict_vs_permissive [OF l2]
    strict_vs_permissive [OF l3]
  show ?thesis by blast
qed




end
